theory Spec2Isabelle
  imports Complex_Main
begin

section \<open>Floating-point values\<close>

text \<open>
  A tensor or array entry is a floating-point number: a finite value, one of the two
  infinities, or not-a-number. Finite values are modelled by exact rationals, so rounding
  and overflow of finite arithmetic are abstracted away; the behaviour of the special
  values (comparisons with NaN are false, \<open>0/0\<close> is NaN, \<open>x/0\<close> is an infinity)
  follows IEEE 754 as torch and numpy implement it. Signed zeros are not distinguished.
\<close>

datatype fl = Fin rat | PInf | NInf | NaN

fun fl_gt :: "fl \<Rightarrow> fl \<Rightarrow> bool" where
  "fl_gt NaN _ = False"
| "fl_gt _ NaN = False"
| "fl_gt (Fin a) (Fin b) = (a > b)"
| "fl_gt PInf PInf = False"
| "fl_gt PInf _ = True"
| "fl_gt _ PInf = False"
| "fl_gt NInf _ = False"
| "fl_gt _ NInf = True"

fun fl_eq :: "fl \<Rightarrow> fl \<Rightarrow> bool" where
  "fl_eq NaN _ = False"
| "fl_eq _ NaN = False"
| "fl_eq a b = (a = b)"

definition fl_ge :: "fl \<Rightarrow> fl \<Rightarrow> bool" where
  "fl_ge a b = (fl_gt a b \<or> fl_eq a b)"

definition fl_le :: "fl \<Rightarrow> fl \<Rightarrow> bool" where
  "fl_le a b = fl_ge b a"

fun isfinite :: "fl \<Rightarrow> bool" where
  "isfinite (Fin _) = True"
| "isfinite _ = False"

fun fl_add :: "fl \<Rightarrow> fl \<Rightarrow> fl" where
  "fl_add NaN _ = NaN"
| "fl_add _ NaN = NaN"
| "fl_add (Fin a) (Fin b) = Fin (a + b)"
| "fl_add PInf NInf = NaN"
| "fl_add NInf PInf = NaN"
| "fl_add PInf _ = PInf"
| "fl_add _ PInf = PInf"
| "fl_add NInf _ = NInf"
| "fl_add _ NInf = NInf"

fun fl_neg :: "fl \<Rightarrow> fl" where
  "fl_neg (Fin a) = Fin (- a)"
| "fl_neg PInf = NInf"
| "fl_neg NInf = PInf"
| "fl_neg NaN = NaN"

fun fl_mul :: "fl \<Rightarrow> fl \<Rightarrow> fl" where
  "fl_mul NaN _ = NaN"
| "fl_mul _ NaN = NaN"
| "fl_mul (Fin a) (Fin b) = Fin (a * b)"
| "fl_mul (Fin a) b = (if a = 0 then NaN else if a > 0 then b else fl_neg b)"
| "fl_mul a (Fin b) = (if b = 0 then NaN else if b > 0 then a else fl_neg a)"
| "fl_mul PInf b = b"
| "fl_mul NInf b = fl_neg b"

fun fl_div :: "fl \<Rightarrow> fl \<Rightarrow> fl" where
  "fl_div NaN _ = NaN"
| "fl_div _ NaN = NaN"
| "fl_div (Fin a) (Fin b) =
     (if b = 0 then (if a = 0 then NaN else if a > 0 then PInf else NInf)
      else Fin (a / b))"
| "fl_div (Fin a) _ = Fin 0"
| "fl_div a (Fin b) = (if b \<ge> 0 then a else fl_neg a)"
| "fl_div _ _ = NaN"

definition of_long :: "int \<Rightarrow> fl" where
  \<comment> \<open>the conversion of an integer to a float (\<open>.float()\<close>, \<open>np.asarray(..., dtype=float64)\<close>)\<close>
  "of_long n = Fin (of_int n)"

section \<open>Errors\<close>

datatype error =
    ShapeMismatch        \<comment> \<open>torch's RuntimeError for shapes that cannot be broadcast\<close>
  | MalformedMetricName  \<comment> \<open>\<open>ValueError('Malformed metric name: ...')\<close>\<close>
  | InvalidRankType      \<comment> \<open>\<open>ValueError('Invalid rank type: ...')\<close>\<close>
  | InvalidMetricName    \<comment> \<open>\<open>ValueError('Invalid metric name: ...')\<close>\<close>
  | InvalidLiteral       \<comment> \<open>the \<open>ValueError\<close> of \<open>int(k)\<close> on a string that is no integer\<close>
  | KeyError             \<comment> \<open>a dictionary lookup of a missing key\<close>


section \<open>Rank computation\<close>

definition RANK_BEST :: string where "RANK_BEST = ''best''"
definition RANK_WORST :: string where "RANK_WORST = ''worst''"
definition RANK_AVERAGE :: string where "RANK_AVERAGE = ''avg''"
definition RANK_TYPES :: "string list" where
  "RANK_TYPES = [RANK_BEST, RANK_WORST, RANK_AVERAGE]"
definition RANK_AVERAGE_ADJUSTED :: string where "RANK_AVERAGE_ADJUSTED = ''adj''"

text \<open>
  Tensors are lists along their first (batch) dimension. \<open>true_score\<close> has shape
  \<open>(batch_size, 1)\<close> and is the list of its rows' single entries; \<open>all_scores\<close> has shape
  \<open>(batch_size, num_entities)\<close> and is the list of its rows. An elementwise operation of
  torch broadcasts its operands: along a dimension the two sizes must agree, or one of
  them is 1 and that operand is repeated; otherwise torch raises. Along the second
  dimension \<open>num_entities\<close> always meets 1; \<open>broadcast\<close> is the rule along the first.
\<close>

definition broadcast :: "('a \<Rightarrow> 'b \<Rightarrow> 'c) \<Rightarrow> 'a list \<Rightarrow> 'b list \<Rightarrow> error + 'c list" where
  "broadcast f xs ys =
     (if length xs = length ys then Inr (map2 f xs ys)
      else if length xs = 1 then Inr (map (f (hd xs)) ys)
      else if length ys = 1 then Inr (map (\<lambda>x. f x (hd ys)) xs)
      else Inl ShapeMismatch)"

definition count_gt :: "fl list \<Rightarrow> fl \<Rightarrow> int" where
  \<comment> \<open>\<open>(all_scores > true_score).sum(dim=1)\<close> on one row\<close>
  "count_gt row t = int (length (filter (\<lambda>s. fl_gt s t) row))"

definition count_ge :: "fl list \<Rightarrow> fl \<Rightarrow> int" where
  \<comment> \<open>\<open>(all_scores >= true_score).sum(dim=1)\<close> on one row\<close>
  "count_ge row t = int (length (filter (\<lambda>s. fl_ge s t) row))"

definition number_of_options :: "fl list list \<Rightarrow> fl list" where
  \<comment> \<open>\<open>torch.isfinite(all_scores).sum(dim=1).float()\<close>\<close>
  "number_of_options all_scores =
     map (\<lambda>row. of_long (int (length (filter isfinite row)))) all_scores"

record batch_ranks =
  best :: "int list"
  worst :: "int list"
  avg :: "fl list"
  adj :: "fl list"

definition compute_rank_from_scores :: "fl list \<Rightarrow> fl list list \<Rightarrow> error + batch_ranks" where
  "compute_rank_from_scores true_score all_scores =
     (case broadcast (\<lambda>row t. count_gt row t + 1) all_scores true_score of
        Inl e \<Rightarrow> Inl e
      | Inr best_rank \<Rightarrow>
     (case broadcast count_ge all_scores true_score of
        Inl e \<Rightarrow> Inl e
      | Inr worst_rank \<Rightarrow>
     (let average_rank = map2 (\<lambda>b w. fl_mul (of_long (b + w)) (Fin (1/2))) best_rank worst_rank;
          expected_rank = map (\<lambda>n. fl_mul (Fin (1/2)) (fl_add n (Fin 1)))
                            (number_of_options all_scores)
      in case broadcast fl_div average_rank expected_rank of
        Inl e \<Rightarrow> Inl e
      | Inr adjusted_average_rank \<Rightarrow>
          Inr \<lparr>best = best_rank, worst = worst_rank, avg = average_rank,
               adj = adjusted_average_rank\<rparr>)))"

section \<open>Python's \<open>str\<close> and \<open>int\<close> on integers\<close>

text \<open>
  \<open>str(k)\<close> of an integer is its decimal numeral, with a leading \<open>-\<close> when negative.
  \<open>int(s)\<close> of a string drops surrounding whitespace, reads an optional sign and then
  decimal digits, where single underscores may separate digits; any other string raises
  \<open>ValueError\<close>. A \<open>char\<close> is a code point below 256.
\<close>

definition digit_char :: "nat \<Rightarrow> char" where
  "digit_char d = ''0123456789'' ! d"

definition is_digit :: "char \<Rightarrow> bool" where
  "is_digit c = (48 \<le> (of_char c :: nat) \<and> (of_char c :: nat) \<le> 57)"

definition digit_val :: "char \<Rightarrow> nat" where
  "digit_val c = of_char c - 48"

fun str_nat :: "nat \<Rightarrow> string" where
  "str_nat n = (if n < 10 then [digit_char n] else str_nat (n div 10) @ [digit_char (n mod 10)])"

declare str_nat.simps [simp del]

definition str_int :: "int \<Rightarrow> string" where
  "str_int i = (if i < 0 then CHR ''-'' # str_nat (nat (- i)) else str_nat (nat i))"

definition is_space :: "char \<Rightarrow> bool" where
  "is_space c = ((of_char c :: nat) \<in> {9, 10, 11, 12, 13, 28, 29, 30, 31, 32, 133, 160})"

definition strip :: "string \<Rightarrow> string" where
  "strip s = rev (dropWhile is_space (rev (dropWhile is_space s)))"

fun digits :: "string \<Rightarrow> nat \<Rightarrow> nat option" where
  "digits [] acc = Some acc"
| "digits [c] acc = (if is_digit c then Some (10 * acc + digit_val c) else None)"
| "digits (c # d # cs) acc =
     (if is_digit c then digits (d # cs) (10 * acc + digit_val c)
      else if c = CHR ''_'' \<and> is_digit d then digits cs (10 * acc + digit_val d)
      else None)"

definition parse_digits :: "string \<Rightarrow> nat option" where
  "parse_digits s =
     (case s of [] \<Rightarrow> None
      | c # cs \<Rightarrow> if is_digit c then digits cs (digit_val c) else None)"

definition int_str :: "string \<Rightarrow> int option" where
  "int_str s =
     (case strip s of [] \<Rightarrow> None
      | c # cs \<Rightarrow>
          if c = CHR ''-'' then map_option (\<lambda>n. - int n) (parse_digits cs)
          else if c = CHR ''+'' then map_option int (parse_digits cs)
          else map_option int (parse_digits (c # cs)))"

section \<open>The metric results\<close>

record metric_results =
  mean_rank :: "string \<rightharpoonup> fl"
  mean_reciprocal_rank :: "string \<rightharpoonup> fl"
  hits_at_k :: "string \<rightharpoonup> (int \<times> fl) list"
  adjusted_mean_rank :: fl

text \<open>
  The inner dictionaries of \<open>hits_at_k\<close> are iterated by \<open>to_flat_dict\<close>, so they are
  association lists; a dictionary holds each key once.
\<close>

definition dict_get :: "('k \<rightharpoonup> 'v) \<Rightarrow> 'k \<Rightarrow> error + 'v" where
  \<comment> \<open>\<open>d[k]\<close>\<close>
  "dict_get d k = (case d k of None \<Rightarrow> Inl KeyError | Some v \<Rightarrow> Inr v)"

definition split_dot :: "string \<Rightarrow> string \<times> string" where
  \<comment> \<open>\<open>name.split('.')\<close> of a name with exactly one dot\<close>
  "split_dot name =
     (takeWhile (\<lambda>c. c \<noteq> CHR ''.'') name, tl (dropWhile (\<lambda>c. c \<noteq> CHR ''.'') name))"

definition startswith :: "string \<Rightarrow> string \<Rightarrow> bool" where
  "startswith s p = (take (length p) s = p)"

definition hits_lookup :: "(int \<times> fl) list \<Rightarrow> string \<Rightarrow> error + fl" where
  \<comment> \<open>\<open>k = 10 if k == 'k' else int(k); return rank_type_hits_at_k[k]\<close>\<close>
  "hits_lookup rank_type_hits_at_k k =
     (if k = ''k'' then dict_get (map_of rank_type_hits_at_k) 10
      else case int_str k of
             None \<Rightarrow> Inl InvalidLiteral
           | Some n \<Rightarrow> dict_get (map_of rank_type_hits_at_k) n)"

definition get_metric :: "metric_results \<Rightarrow> string \<Rightarrow> error + fl" where
  "get_metric self name =
     (if name = ''adjusted_mean_rank'' then Inr (adjusted_mean_rank self)
      else let dot_count = count_list name CHR ''.'' in
        if 1 < dot_count then Inl MalformedMetricName
        else let (rank_type, metric) =
                   (if dot_count = 0 then (''avg'', name) else split_dot name) in
          if rank_type \<notin> set RANK_TYPES then Inl InvalidRankType
          else if metric = ''mean_rank'' then dict_get (mean_rank self) rank_type
          else if metric = ''mean_reciprocal_rank''
            then dict_get (mean_reciprocal_rank self) rank_type
          else case hits_at_k self rank_type of
                 None \<Rightarrow> Inl KeyError
               | Some rank_type_hits_at_k \<Rightarrow>
                   if startswith metric ''hits_at_''
                     then hits_lookup rank_type_hits_at_k (drop (length ''hits_at_'') metric)
                   else if startswith metric ''hits@''
                     then hits_lookup rank_type_hits_at_k (drop (length ''hits@'') metric)
                   else Inl InvalidMetricName)"

definition flat_rank_type ::
  "metric_results \<Rightarrow> string \<Rightarrow> (string \<rightharpoonup> fl) \<Rightarrow> error + (string \<rightharpoonup> fl)" where
  \<comment> \<open>one round of the loop over \<open>RANK_TYPES\<close> in \<open>to_flat_dict\<close>\<close>
  "flat_rank_type self rank_type r =
     (case mean_rank self rank_type of
        None \<Rightarrow> Inl KeyError
      | Some mr \<Rightarrow>
     (case mean_reciprocal_rank self rank_type of
        None \<Rightarrow> Inl KeyError
      | Some mrr \<Rightarrow>
     (case hits_at_k self rank_type of
        None \<Rightarrow> Inl KeyError
      | Some h \<Rightarrow>
          Inr (fold (\<lambda>(k, v) r. r(rank_type @ ''.hits_at_'' @ str_int k \<mapsto> v)) h
                 (r(rank_type @ ''.mean_rank'' \<mapsto> mr,
                    rank_type @ ''.mean_reciprocal_rank'' \<mapsto> mrr))))))"

fun flat_loop ::
  "metric_results \<Rightarrow> string list \<Rightarrow> (string \<rightharpoonup> fl) \<Rightarrow> error + (string \<rightharpoonup> fl)" where
  "flat_loop self [] r = Inr r"
| "flat_loop self (rank_type # rts) r =
     (case flat_rank_type self rank_type r of
        Inl e \<Rightarrow> Inl e
      | Inr r' \<Rightarrow> flat_loop self rts r')"

definition to_flat_dict :: "metric_results \<Rightarrow> error + (string \<rightharpoonup> fl)" where
  "to_flat_dict self =
     flat_loop self RANK_TYPES [''avg.adjusted_mean_rank'' \<mapsto> adjusted_mean_rank self]"

section \<open>The evaluator\<close>

record evaluator =
  ks :: "int list"
  filtered :: bool
  ranks :: "string \<rightharpoonup> fl list"

definition RankBasedEvaluator :: "int list option \<Rightarrow> bool \<Rightarrow> evaluator" where
  \<comment> \<open>\<open>__init__\<close>\<close>
  "RankBasedEvaluator ks_arg filtered_arg =
     \<lparr>ks = (case ks_arg of None \<Rightarrow> [1, 3, 5, 10] | Some l \<Rightarrow> l),
      filtered = filtered_arg,
      ranks = Map.empty\<rparr>"

definition items :: "batch_ranks \<Rightarrow> (string \<times> fl list) list" where
  \<comment> \<open>\<open>batch_ranks.items()\<close>, each tensor through \<open>tolist()\<close>; the integers of the best and
      worst ranks become floats when \<open>finalize\<close> builds its arrays, here already\<close>
  "items br =
     [(RANK_BEST, map of_long (best br)),
      (RANK_WORST, map of_long (worst br)),
      (RANK_AVERAGE, avg br),
      (RANK_AVERAGE_ADJUSTED, adj br)]"

definition ranks_extend :: "(string \<rightharpoonup> fl list) \<Rightarrow> string \<times> fl list \<Rightarrow> (string \<rightharpoonup> fl list)" where
  \<comment> \<open>\<open>self.ranks[k].extend(v)\<close> on a \<open>defaultdict(list)\<close>\<close>
  "ranks_extend r kv = r(fst kv \<mapsto> (case r (fst kv) of None \<Rightarrow> [] | Some l \<Rightarrow> l) @ snd kv)"

definition update_ranks :: "evaluator \<Rightarrow> fl list \<Rightarrow> fl list list \<Rightarrow> error + evaluator" where
  \<comment> \<open>\<open>_update_ranks_\<close>\<close>
  "update_ranks self true_scores all_scores =
     (case compute_rank_from_scores true_scores all_scores of
        Inl e \<Rightarrow> Inl e
      | Inr batch_ranks \<Rightarrow>
          Inr (self\<lparr>ranks := foldl ranks_extend (ranks self) (items batch_ranks)\<rparr>))"

type_synonym mapped_triples = "(int \<times> int \<times> int) list"

definition process_tail_scores ::
  "evaluator \<Rightarrow> mapped_triples \<Rightarrow> fl list \<Rightarrow> fl list list \<Rightarrow> bool list list option
     \<Rightarrow> error + evaluator" where
  \<comment> \<open>\<open>process_tail_scores_\<close>\<close>
  "process_tail_scores self hrt_batch true_scores scores dense_positive_mask =
     update_ranks self true_scores scores"

definition process_head_scores ::
  "evaluator \<Rightarrow> mapped_triples \<Rightarrow> fl list \<Rightarrow> fl list list \<Rightarrow> bool list list option
     \<Rightarrow> error + evaluator" where
  \<comment> \<open>\<open>process_head_scores_\<close>\<close>
  "process_head_scores self hrt_batch true_scores scores dense_positive_mask =
     update_ranks self true_scores scores"

text \<open>
  numpy: \<open>np.asarray(None, dtype=np.float64)\<close> is the array holding the single value NaN
  (of dimension 0; its mean and its elementwise operations are those of the one-element
  array). \<open>np.mean\<close> divides the sum by the number of entries and gives NaN on an empty
  array, with a warning and no exception.
\<close>

definition asarray :: "fl list option \<Rightarrow> fl list" where
  "asarray l = (case l of None \<Rightarrow> [NaN] | Some xs \<Rightarrow> xs)"

definition np_mean :: "fl list \<Rightarrow> fl" where
  "np_mean xs = fl_div (foldl fl_add (Fin 0) xs) (of_long (int (length xs)))"

definition np_mean_bool :: "bool list \<Rightarrow> fl" where
  "np_mean_bool bs = np_mean (map (\<lambda>b. if b then Fin 1 else Fin 0) bs)"

definition np_reciprocal :: "fl \<Rightarrow> fl" where
  "np_reciprocal x = fl_div (Fin 1) x"

definition finalize_rank_type ::
  "evaluator \<Rightarrow> string
     \<Rightarrow> (string \<rightharpoonup> fl) \<times> (string \<rightharpoonup> fl) \<times> (string \<rightharpoonup> (int \<times> fl) list)
     \<Rightarrow> (string \<rightharpoonup> fl) \<times> (string \<rightharpoonup> fl) \<times> (string \<rightharpoonup> (int \<times> fl) list)" where
  \<comment> \<open>one round of the loop over \<open>RANK_TYPES\<close> in \<open>finalize\<close>; the dictionary
      comprehension over \<open>self.ks\<close> keeps each k once\<close>
  "finalize_rank_type self rank_type acc =
     (case acc of (mr, mrr, hk) \<Rightarrow>
        let rs = asarray (ranks self rank_type) in
          (mr(rank_type \<mapsto> np_mean rs),
           mrr(rank_type \<mapsto> np_mean (map np_reciprocal rs)),
           hk(rank_type \<mapsto>
                map (\<lambda>k. (k, np_mean_bool (map (\<lambda>x. fl_le x (of_long k)) rs)))
                  (remdups (ks self)))))"

definition finalize :: "evaluator \<Rightarrow> metric_results \<times> evaluator" where
  "finalize self =
     (case fold (finalize_rank_type self) RANK_TYPES (Map.empty, Map.empty, Map.empty) of
        (mr, mrr, hk) \<Rightarrow>
          (\<lparr>mean_rank = mr, mean_reciprocal_rank = mrr, hits_at_k = hk,
            adjusted_mean_rank = np_mean (asarray (ranks self RANK_AVERAGE_ADJUSTED))\<rparr>,
           self\<lparr>ranks := Map.empty\<rparr>))"

section \<open>Per-row quantities\<close>

text \<open>
  The values that \<open>compute_rank_from_scores\<close> gives one example, when the true scores and
  the rows of \<open>all_scores\<close> are paired one to one.
\<close>

definition row_best :: "fl list \<Rightarrow> fl \<Rightarrow> int" where
  "row_best row t = count_gt row t + 1"

definition row_avg :: "fl list \<Rightarrow> fl \<Rightarrow> fl" where
  "row_avg row t = fl_mul (of_long (row_best row t + count_ge row t)) (Fin (1/2))"

definition row_expected :: "fl list \<Rightarrow> fl" where
  "row_expected row =
     fl_mul (Fin (1/2)) (fl_add (of_long (int (length (filter isfinite row)))) (Fin 1))"

section \<open>Driving the evaluator over batches\<close>

text \<open>
  An evaluation example is a true score with its row of candidate scores. A batch holds
  the examples' true scores as \<open>true_scores\<close> and their rows as \<open>scores\<close>, and is
  processed as a head or as a tail prediction; both store into the same accumulator.
\<close>

type_synonym example = "fl \<times> fl list"

fun process_batches ::
  "evaluator \<Rightarrow> (bool \<times> mapped_triples \<times> example list) list \<Rightarrow> error + evaluator" where
  "process_batches self [] = Inr self"
| "process_batches self ((head, hrt_batch, examples) # batches) =
     (case (if head
            then process_head_scores self hrt_batch (map fst examples) (map snd examples) None
            else process_tail_scores self hrt_batch (map fst examples) (map snd examples) None)
      of Inl e \<Rightarrow> Inl e
       | Inr self' \<Rightarrow> process_batches self' batches)"

definition example_rank :: "string \<Rightarrow> example \<Rightarrow> fl" where
  "example_rank k ex =
     (if k = RANK_BEST then of_long (row_best (snd ex) (fst ex))
      else if k = RANK_WORST then of_long (count_ge (snd ex) (fst ex))
      else if k = RANK_AVERAGE then row_avg (snd ex) (fst ex)
      else fl_div (row_avg (snd ex) (fst ex)) (row_expected (snd ex)))"

definition rank_keys :: "string list" where
  "rank_keys = [RANK_BEST, RANK_WORST, RANK_AVERAGE, RANK_AVERAGE_ADJUSTED]"

definition stored :: "(string \<rightharpoonup> fl list) \<Rightarrow> string \<Rightarrow> fl list" where
  "stored r k = (case r k of None \<Rightarrow> [] | Some l \<Rightarrow> l)"

section \<open>Metric names as the specification words them\<close>

text \<open>
  A metric name is invalid when it has more than one dot, or its rank kind (the part
  before the dot, \<open>avg\<close> when there is no dot) is not among the rank kinds, or its metric
  (the rest) is neither \<open>mean_rank\<close> nor \<open>mean_reciprocal_rank\<close> nor a hits designator
  \<open>hits_at_<k>\<close> or \<open>hits@<k>\<close>, where \<open><k>\<close> is the letter \<open>k\<close> or an integer;
  \<open>adjusted_mean_rank\<close> is reserved. A call fails with an invalid-name error when it
  raises a \<open>ValueError\<close>.
\<close>

definition example_results :: metric_results where
  "example_results =
     \<lparr>mean_rank = [''best'' \<mapsto> Fin 1, ''worst'' \<mapsto> Fin 2, ''avg'' \<mapsto> Fin (3/2)],
      mean_reciprocal_rank = [''best'' \<mapsto> Fin 1, ''worst'' \<mapsto> Fin (1/2), ''avg'' \<mapsto> Fin (3/4)],
      hits_at_k = [''best'' \<mapsto> [(1, Fin 1), (10, Fin 1)],
                   ''worst'' \<mapsto> [(1, Fin 0), (10, Fin 1)],
                   ''avg'' \<mapsto> [(1, Fin (1/2)), (10, Fin 1)]],
      adjusted_mean_rank = Fin (3/4)\<rparr>"




definition is_k_designator :: "string \<Rightarrow> bool" where
  "is_k_designator k = (k = ''k'' \<or> int_str k \<noteq> None)"

definition is_hits_designator :: "string \<Rightarrow> bool" where
  "is_hits_designator metric =
     ((startswith metric ''hits_at_'' \<and> is_k_designator (drop (length ''hits_at_'') metric))
      \<or> (startswith metric ''hits@'' \<and> is_k_designator (drop (length ''hits@'') metric)))"


definition flat_ok :: "metric_results \<Rightarrow> (string \<rightharpoonup> fl) \<Rightarrow> bool" where
  "flat_ok self r =
     (\<forall>key v. r key = Some v \<longrightarrow>
        key = ''avg.adjusted_mean_rank'' \<or> get_metric self key = Inr v)"

section \<open>Lemmas on the rank computation\<close>

lemma broadcast_same_length:
  "length xs = length ys \<Longrightarrow> broadcast f xs ys = Inr (map2 f xs ys)"
  by (simp add: broadcast_def)

lemma compute_same_length:
  assumes "length true_score = length all_scores"
  shows "\<exists>br. compute_rank_from_scores true_score all_scores = Inr br
     \<and> length (best br) = length all_scores \<and> length (worst br) = length all_scores
     \<and> length (avg br) = length all_scores \<and> length (adj br) = length all_scores
     \<and> (\<forall>i<length all_scores.
          best br ! i = row_best (all_scores ! i) (true_score ! i)
        \<and> worst br ! i = count_ge (all_scores ! i) (true_score ! i)
        \<and> avg br ! i = row_avg (all_scores ! i) (true_score ! i)
        \<and> adj br ! i = fl_div (row_avg (all_scores ! i) (true_score ! i))
                          (row_expected (all_scores ! i)))"
proof -
  define B where "B = map2 (\<lambda>row t. count_gt row t + 1) all_scores true_score"
  define W where "W = map2 count_ge all_scores true_score"
  define A where "A = map2 (\<lambda>b w. fl_mul (of_long (b + w)) (Fin (1/2))) B W"
  define E where "E = map (\<lambda>n. fl_mul (Fin (1/2)) (fl_add n (Fin 1)))
                        (number_of_options all_scores)"
  have l: "length all_scores = length true_score" using assms by simp
  have lens: "length B = length all_scores" "length W = length all_scores"
    "length A = length all_scores" "length E = length all_scores"
    using l by (simp_all add: B_def W_def A_def E_def number_of_options_def)
  have lAE: "length A = length E" using lens by simp
  have c: "compute_rank_from_scores true_score all_scores
            = Inr \<lparr>best = B, worst = W, avg = A, adj = map2 fl_div A E\<rparr>"
    unfolding compute_rank_from_scores_def Let_def
    by (simp only: broadcast_same_length [OF l] broadcast_same_length [OF lAE [unfolded A_def B_def W_def E_def]]
          sum.case B_def W_def A_def E_def)
  have n: "\<forall>i<length all_scores.
          B ! i = row_best (all_scores ! i) (true_score ! i)
        \<and> W ! i = count_ge (all_scores ! i) (true_score ! i)
        \<and> A ! i = row_avg (all_scores ! i) (true_score ! i)
        \<and> map2 fl_div A E ! i = fl_div (row_avg (all_scores ! i) (true_score ! i))
                          (row_expected (all_scores ! i))"
    using l by (simp add: B_def W_def A_def E_def number_of_options_def row_best_def
        row_avg_def row_expected_def)
  show ?thesis unfolding c using n lens by auto
qed

lemma filter_disjoint_length:
  "(\<And>x. P x \<Longrightarrow> \<not> Q x) \<Longrightarrow>
   length (filter (\<lambda>x. P x \<or> Q x) xs) = length (filter P xs) + length (filter Q xs)"
  by (induction xs) auto

lemma fl_gt_not_eq: "fl_gt s t \<Longrightarrow> \<not> fl_eq s t"
  by (cases s; cases t) auto

lemma count_ge_split:
  "count_ge row t = count_gt row t + int (length (filter (\<lambda>s. fl_eq s t) row))"
  unfolding count_ge_def count_gt_def fl_ge_def
  using filter_disjoint_length [of "\<lambda>s. fl_gt s t" "\<lambda>s. fl_eq s t" row] fl_gt_not_eq
  by simp





lemma fl_gt_NaN_left: "(s \<noteq> NaN \<and> fl_gt s t) = fl_gt s t"
  by (cases s) auto

lemma fl_ge_NaN_left: "(s \<noteq> NaN \<and> fl_ge s t) = fl_ge s t"
  by (cases s; cases t) (auto simp: fl_ge_def)

lemma isfinite_NaN_left: "(s \<noteq> NaN \<and> isfinite s) = isfinite s"
  by (cases s) auto

lemma count_gt_drop_NaN: "count_gt (filter (\<lambda>s. s \<noteq> NaN) row) t = count_gt row t"
  by (simp add: count_gt_def fl_gt_NaN_left)

lemma count_ge_drop_NaN: "count_ge (filter (\<lambda>s. s \<noteq> NaN) row) t = count_ge row t"
  by (simp add: count_ge_def fl_ge_NaN_left)

lemma number_of_options_drop_NaN:
  "number_of_options (map (filter (\<lambda>s. s \<noteq> NaN)) all_scores) = number_of_options all_scores"
  by (simp add: number_of_options_def isfinite_NaN_left)

lemma broadcast_map_left:
  "broadcast f (map g xs) ys = broadcast (\<lambda>x y. f (g x) y) xs ys"
proof -
  have "map2 f (map g xs) ys = map2 (\<lambda>x y. f (g x) y) xs ys"
    by (simp add: zip_map1 case_prod_unfold)
  moreover have "length xs = 1 \<Longrightarrow> hd (map g xs) = g (hd xs)"
    by (cases xs) simp_all
  ultimately show ?thesis by (simp add: broadcast_def)
qed

lemma compute_drop_NaN:
  "compute_rank_from_scores true_score (map (filter (\<lambda>s. s \<noteq> NaN)) all_scores)
     = compute_rank_from_scores true_score all_scores"
  unfolding compute_rank_from_scores_def
  by (simp only: broadcast_map_left count_gt_drop_NaN count_ge_drop_NaN
      number_of_options_drop_NaN)

section \<open>Lemmas on finalize\<close>

lemma finalize_cleared:
  "ranks (snd (finalize self)) = Map.empty"
  by (simp add: finalize_def split: prod.splits)

lemma finalize_mean_rank:
  "rank_type \<in> set RANK_TYPES \<Longrightarrow>
   mean_rank (fst (finalize self)) rank_type = Some (np_mean (asarray (ranks self rank_type)))"
  by (auto simp add: finalize_def finalize_rank_type_def RANK_TYPES_def RANK_BEST_def
      RANK_WORST_def RANK_AVERAGE_def Let_def)

lemma finalize_mean_reciprocal_rank:
  "rank_type \<in> set RANK_TYPES \<Longrightarrow>
   mean_reciprocal_rank (fst (finalize self)) rank_type
     = Some (np_mean (map np_reciprocal (asarray (ranks self rank_type))))"
  by (auto simp add: finalize_def finalize_rank_type_def RANK_TYPES_def RANK_BEST_def
      RANK_WORST_def RANK_AVERAGE_def Let_def)

lemma finalize_adjusted_mean_rank:
  "adjusted_mean_rank (fst (finalize self))
     = np_mean (asarray (ranks self RANK_AVERAGE_ADJUSTED))"
  by (simp add: finalize_def split: prod.splits)

lemma np_mean_none: "np_mean (asarray None) = NaN"
  "np_mean (map np_reciprocal (asarray None)) = NaN"
  by (simp_all add: np_mean_def asarray_def np_reciprocal_def)

section \<open>Lemmas on the accumulator\<close>

lemma compute_examples:
  "\<exists>br. compute_rank_from_scores (map fst exs) (map snd exs) = Inr br
     \<and> items br = map (\<lambda>k. (k, map (example_rank k) exs)) rank_keys"
proof -
  have l: "length (map fst exs) = length (map snd exs)" by simp
  obtain br where br: "compute_rank_from_scores (map fst exs) (map snd exs) = Inr br"
    and lens: "length (best br) = length exs" "length (worst br) = length exs"
      "length (avg br) = length exs" "length (adj br) = length exs"
    and rows: "\<forall>i<length exs.
          best br ! i = row_best (map snd exs ! i) (map fst exs ! i)
        \<and> worst br ! i = count_ge (map snd exs ! i) (map fst exs ! i)
        \<and> avg br ! i = row_avg (map snd exs ! i) (map fst exs ! i)
        \<and> adj br ! i = fl_div (row_avg (map snd exs ! i) (map fst exs ! i))
                          (row_expected (map snd exs ! i))"
    using compute_same_length [OF l] by auto
  have b: "map of_long (best br) = map (example_rank RANK_BEST) exs"
    using lens rows by (intro nth_equalityI) (simp_all add: example_rank_def)
  have w: "map of_long (worst br) = map (example_rank RANK_WORST) exs"
    using lens rows
    by (intro nth_equalityI) (simp_all add: example_rank_def RANK_WORST_def RANK_BEST_def)
  have a: "avg br = map (example_rank RANK_AVERAGE) exs"
    using lens rows
    by (intro nth_equalityI)
       (simp_all add: example_rank_def RANK_WORST_def RANK_BEST_def RANK_AVERAGE_def)
  have d: "adj br = map (example_rank RANK_AVERAGE_ADJUSTED) exs"
    using lens rows
    by (intro nth_equalityI)
       (simp_all add: example_rank_def RANK_WORST_def RANK_BEST_def RANK_AVERAGE_def
          RANK_AVERAGE_ADJUSTED_def)
  show ?thesis using br by (simp add: items_def rank_keys_def b w a d)
qed

lemma foldl_extend:
  "distinct keys \<Longrightarrow>
   foldl ranks_extend r (map (\<lambda>k. (k, f k)) keys) k
     = (if k \<in> set keys then Some (stored r k @ f k) else r k)"
proof (induction keys arbitrary: r)
  case Nil
  then show ?case by simp
next
  case (Cons a keys)
  then show ?case by (auto simp: ranks_extend_def stored_def)
qed

lemma distinct_rank_keys: "distinct rank_keys"
  by (simp add: rank_keys_def RANK_BEST_def RANK_WORST_def RANK_AVERAGE_def
      RANK_AVERAGE_ADJUSTED_def)

lemma update_ranks_examples:
  "\<exists>s. update_ranks self (map fst exs) (map snd exs) = Inr s
     \<and> (\<forall>k. ranks s k = (if k \<in> set rank_keys
                          then Some (stored (ranks self) k @ map (example_rank k) exs)
                          else ranks self k))"
proof -
  obtain br where br: "compute_rank_from_scores (map fst exs) (map snd exs) = Inr br"
    and it: "items br = map (\<lambda>k. (k, map (example_rank k) exs)) rank_keys"
    using compute_examples by blast
  show ?thesis
    by (simp add: update_ranks_def br it foldl_extend [OF distinct_rank_keys])
qed

lemma process_batches_ranks:
  "\<exists>s. process_batches self batches = Inr s
     \<and> (\<forall>k\<in>set rank_keys. ranks s k =
          (if batches = [] then ranks self k
           else Some (stored (ranks self) k
                  @ map (example_rank k) (concat (map (\<lambda>b. snd (snd b)) batches)))))"
proof (induction batches arbitrary: self)
  case Nil
  then show ?case by simp
next
  case (Cons b batches)
  obtain head hrt exs where b: "b = (head, hrt, exs)" by (cases b) auto
  obtain s' where s': "update_ranks self (map fst exs) (map snd exs) = Inr s'"
    and r': "\<forall>k. ranks s' k = (if k \<in> set rank_keys
                          then Some (stored (ranks self) k @ map (example_rank k) exs)
                          else ranks self k)"
    using update_ranks_examples by blast
  obtain s where s: "process_batches s' batches = Inr s"
    and r: "\<forall>k\<in>set rank_keys. ranks s k =
          (if batches = [] then ranks s' k
           else Some (stored (ranks s') k
                  @ map (example_rank k) (concat (map (\<lambda>b. snd (snd b)) batches))))"
    using Cons.IH [of s'] by blast
  have "process_batches self (b # batches) = Inr s"
    using s s' by (simp add: b process_head_scores_def process_tail_scores_def)
  moreover have "\<forall>k\<in>set rank_keys. ranks s k =
           Some (stored (ranks self) k
                  @ map (example_rank k) (concat (map (\<lambda>b. snd (snd b)) (b # batches))))"
    using r r' by (auto simp: b stored_def)
  ultimately show ?case by simp
qed

lemma finalize_mean_rank_other:
  "rank_type \<notin> set RANK_TYPES \<Longrightarrow> mean_rank (fst (finalize self)) rank_type = None"
  by (auto simp add: finalize_def finalize_rank_type_def RANK_TYPES_def Let_def)

lemma np_mean_asarray_stored:
  "np_mean (asarray (Some (stored r k))) = np_mean (asarray (r k))"
  by (cases "r k") (simp_all add: stored_def asarray_def np_mean_def of_long_def)

lemma RANK_TYPES_rank_keys: "set RANK_TYPES \<subseteq> set rank_keys"
  by (simp add: RANK_TYPES_def rank_keys_def)

section \<open>Lemmas on \<open>str\<close> and \<open>int\<close>\<close>

lemma digit_cases: "d < 10 \<Longrightarrow> d \<in> {0, 1, 2, 3, 4, 5, 6, 7, 8, 9::nat}"
  by auto

lemma digit_char_props:
  assumes "d < 10"
  shows "is_digit (digit_char d)" "digit_val (digit_char d) = d"
    "\<not> is_space (digit_char d)" "digit_char d \<noteq> CHR ''.''" "digit_char d \<noteq> CHR ''k''"
  using digit_cases [OF assms]
  by (auto simp: digit_char_def is_digit_def digit_val_def is_space_def)

lemma str_nat_digits: "c \<in> set (str_nat n) \<Longrightarrow> \<exists>d<10. c = digit_char d"
proof (induction n rule: str_nat.induct)
  case (1 n)
  show ?case
  proof (cases "n < 10")
    case True
    with 1(2) show ?thesis by (auto simp: str_nat.simps [of n])
  next
    case False
    have m: "n mod 10 < 10" by simp
    from 1(2) False have "c \<in> set (str_nat (n div 10)) \<or> c = digit_char (n mod 10)"
      by (auto simp add: str_nat.simps [of n])
    then show ?thesis
    proof
      assume "c \<in> set (str_nat (n div 10))"
      with 1(1) False show ?thesis by simp
    next
      assume "c = digit_char (n mod 10)"
      with m show ?thesis by blast
    qed
  qed
qed

lemma str_nat_nonempty: "str_nat n \<noteq> []"
  by (subst str_nat.simps) simp

lemma digits_all_digit:
  "\<forall>c\<in>set ds. is_digit c \<Longrightarrow>
   digits ds acc = Some (foldl (\<lambda>a c. 10 * a + digit_val c) acc ds)"
  by (induction ds acc rule: digits.induct) simp_all

lemma foldl_str_nat: "foldl (\<lambda>a c. 10 * a + digit_val c) 0 (str_nat n) = n"
proof (induction n rule: str_nat.induct)
  case (1 n)
  show ?case
  proof (cases "n < 10")
    case True
    then show ?thesis by (simp add: str_nat.simps [of n] digit_char_props)
  next
    case False
    have m: "n mod 10 < 10" by simp
    from False 1 show ?thesis
      by (simp add: str_nat.simps [of n] digit_char_props(2) [OF m])
  qed
qed

lemma str_nat_is_digit: "\<forall>c\<in>set (str_nat n). is_digit c"
  using str_nat_digits digit_char_props(1) by blast

lemma parse_digits_str_nat: "parse_digits (str_nat n) = Some n"
proof -
  obtain c cs where s: "str_nat n = c # cs"
    using str_nat_nonempty [of n] by (cases "str_nat n") auto
  have d: "is_digit c" "\<forall>x\<in>set cs. is_digit x"
    using str_nat_is_digit [of n] by (simp_all add: s)
  have "foldl (\<lambda>a c. 10 * a + digit_val c) (digit_val c) cs = n"
    using foldl_str_nat [of n] by (simp add: s)
  then show ?thesis
    by (simp add: parse_digits_def s d digits_all_digit)
qed

lemma strip_id:
  assumes "s \<noteq> []" "\<not> is_space (hd s)" "\<not> is_space (last s)"
  shows "strip s = s"
proof -
  have a: "dropWhile is_space s = s" using assms by (cases s) simp_all
  have "rev s \<noteq> []" "\<not> is_space (hd (rev s))" using assms by (simp_all add: hd_rev)
  then have "dropWhile is_space (rev s) = rev s" by (cases "rev s") simp_all
  then show ?thesis by (simp add: strip_def a)
qed

lemma str_nat_no_space: "c \<in> set (str_nat n) \<Longrightarrow> \<not> is_space c"
  using str_nat_digits digit_char_props(3) by blast

lemma not_space_minus: "\<not> is_space CHR ''-''"
  by (simp add: is_space_def)

lemma str_nat_hd_not_sign: "hd (str_nat n) \<noteq> CHR ''-''" "hd (str_nat n) \<noteq> CHR ''+''"
proof -
  have "hd (str_nat n) \<in> set (str_nat n)" using str_nat_nonempty by simp
  then obtain d where "d < 10" "hd (str_nat n) = digit_char d" using str_nat_digits by blast
  then show "hd (str_nat n) \<noteq> CHR ''-''" "hd (str_nat n) \<noteq> CHR ''+''"
    using digit_cases [of d] by (auto simp: digit_char_def)
qed

lemma int_str_str_int: "int_str (str_int k) = Some k"
proof (cases "k < 0")
  case True
  have ne: "str_nat (nat (- k)) \<noteq> []" by (rule str_nat_nonempty)
  have "\<not> is_space (last (str_nat (nat (- k))))"
    using str_nat_no_space last_in_set [OF ne] by blast
  then have "strip (CHR ''-'' # str_nat (nat (- k))) = CHR ''-'' # str_nat (nat (- k))"
    using ne by (intro strip_id) (simp_all add: not_space_minus)
  then show ?thesis using True
    by (simp add: int_str_def str_int_def parse_digits_str_nat)
next
  case False
  let ?s = "str_nat (nat k)"
  have ne: "?s \<noteq> []" by (rule str_nat_nonempty)
  have "\<not> is_space (last ?s)" "\<not> is_space (hd ?s)"
    using str_nat_no_space last_in_set [OF ne] hd_in_set [OF ne] by blast+
  then have st: "strip ?s = ?s" using ne by (intro strip_id)
  obtain c cs where s: "?s = c # cs" using ne by (cases ?s) auto
  have "c \<noteq> CHR ''-''" "c \<noteq> CHR ''+''" using str_nat_hd_not_sign [of "nat k"] by (simp_all add: s)
  then have "int_str ?s = map_option int (parse_digits ?s)"
    by (simp add: int_str_def st) (simp add: s)
  then show ?thesis using False by (simp add: str_int_def parse_digits_str_nat)
qed

lemma str_int_no_dot: "count_list (str_int k) CHR ''.'' = 0"
proof -
  have "CHR ''.'' \<notin> set (str_nat n)" for n
    using str_nat_digits digit_char_props(4) by metis
  then show ?thesis by (simp add: str_int_def)
qed

lemma str_int_not_k: "str_int k \<noteq> ''k''"
proof -
  have "CHR ''k'' \<notin> set (str_nat n)" for n
    using str_nat_digits digit_char_props(5) by metis
  then have "str_nat n \<noteq> ''k''" for n by (metis list.set_intros(1))
  then show ?thesis by (simp add: str_int_def)
qed


lemma rank_type_cases:
  "rank_type \<in> set RANK_TYPES \<Longrightarrow>
   rank_type = ''best'' \<or> rank_type = ''worst'' \<or> rank_type = ''avg''"
  by (auto simp: RANK_TYPES_def RANK_BEST_def RANK_WORST_def RANK_AVERAGE_def)

lemma get_metric_mean_rank:
  "rank_type \<in> set RANK_TYPES \<Longrightarrow>
   get_metric self (rank_type @ ''.mean_rank'') = dict_get (mean_rank self) rank_type"
  by (drule rank_type_cases)
     (auto simp: get_metric_def split_dot_def RANK_TYPES_def RANK_BEST_def RANK_WORST_def
        RANK_AVERAGE_def)

lemma get_metric_mean_reciprocal_rank:
  "rank_type \<in> set RANK_TYPES \<Longrightarrow>
   get_metric self (rank_type @ ''.mean_reciprocal_rank'')
     = dict_get (mean_reciprocal_rank self) rank_type"
  by (drule rank_type_cases)
     (auto simp: get_metric_def split_dot_def RANK_TYPES_def RANK_BEST_def RANK_WORST_def
        RANK_AVERAGE_def)

lemma hits_lookup_str_int:
  "hits_lookup h (str_int k) = dict_get (map_of h) k"
  by (simp add: hits_lookup_def str_int_not_k int_str_str_int)

lemma get_metric_hits_at:
  assumes "rank_type \<in> set RANK_TYPES" and "hits_at_k self rank_type = Some h"
  shows "get_metric self (rank_type @ ''.hits_at_'' @ str_int k) = dict_get (map_of h) k"
  using rank_type_cases [OF assms(1)] assms(2)
  by (auto simp: get_metric_def split_dot_def RANK_TYPES_def RANK_BEST_def RANK_WORST_def
        RANK_AVERAGE_def str_int_no_dot startswith_def hits_lookup_str_int)


section \<open>Lemmas on the metric results\<close>

lemma flat_ok_update:
  "flat_ok self r \<Longrightarrow> get_metric self key = Inr v \<Longrightarrow> flat_ok self (r(key \<mapsto> v))"
  by (simp add: flat_ok_def)

lemma flat_ok_hits_fold:
  assumes "rank_type \<in> set RANK_TYPES" and "hits_at_k self rank_type = Some h"
    and "distinct (map fst h)"
  shows "set kvs \<subseteq> set h \<Longrightarrow> flat_ok self r \<Longrightarrow>
     flat_ok self (fold (\<lambda>(k, v) r. r(rank_type @ ''.hits_at_'' @ str_int k \<mapsto> v)) kvs r)"
proof (induction kvs arbitrary: r)
  case Nil
  then show ?case by simp
next
  case (Cons kv kvs)
  obtain k v where kv: "kv = (k, v)" by (cases kv) auto
  have "(k, v) \<in> set h" using Cons.prems(1) kv by simp
  then have "map_of h k = Some v" using assms(3) by simp
  then have "get_metric self (rank_type @ ''.hits_at_'' @ str_int k) = Inr v"
    using get_metric_hits_at [OF assms(1,2)] by (simp add: dict_get_def)
  then have "flat_ok self (r(rank_type @ ''.hits_at_'' @ str_int k \<mapsto> v))"
    using Cons.prems(2) by (rule flat_ok_update [rotated])
  moreover have "set kvs \<subseteq> set h" using Cons.prems(1) by simp
  ultimately have "flat_ok self (fold (\<lambda>(k, v) r. r(rank_type @ ''.hits_at_'' @ str_int k \<mapsto> v))
                  kvs (r(rank_type @ ''.hits_at_'' @ str_int k \<mapsto> v)))"
    by (rule Cons.IH [rotated])
  then show ?case by (simp only: kv fold_simps prod.case)
qed

lemma flat_ok_rank_type:
  assumes "rank_type \<in> set RANK_TYPES"
    and "\<forall>h. hits_at_k self rank_type = Some h \<longrightarrow> distinct (map fst h)"
    and "flat_ok self r" and "flat_rank_type self rank_type r = Inr r'"
  shows "flat_ok self r'"
proof -
  from assms(4) obtain mr mrr h where
    mr: "mean_rank self rank_type = Some mr"
    and mrr: "mean_reciprocal_rank self rank_type = Some mrr"
    and h: "hits_at_k self rank_type = Some h"
    and r': "r' = fold (\<lambda>(k, v) r. r(rank_type @ ''.hits_at_'' @ str_int k \<mapsto> v)) h
                 (r(rank_type @ ''.mean_rank'' \<mapsto> mr,
                    rank_type @ ''.mean_reciprocal_rank'' \<mapsto> mrr))"
    by (auto simp: flat_rank_type_def split: option.splits)
  have a: "get_metric self (rank_type @ ''.mean_rank'') = Inr mr"
    using get_metric_mean_rank [OF assms(1)] mr by (simp add: dict_get_def)
  have b: "get_metric self (rank_type @ ''.mean_reciprocal_rank'') = Inr mrr"
    using get_metric_mean_reciprocal_rank [OF assms(1)] mrr by (simp add: dict_get_def)
  have "flat_ok self (r(rank_type @ ''.mean_rank'' \<mapsto> mr,
                    rank_type @ ''.mean_reciprocal_rank'' \<mapsto> mrr))"
    using assms(3) a b by (intro flat_ok_update)
  moreover have "distinct (map fst h)" using assms(2) h by simp
  ultimately show ?thesis
    unfolding r' using flat_ok_hits_fold [OF assms(1) h] by blast
qed

lemma flat_ok_loop:
  assumes "\<forall>rank_type\<in>set RANK_TYPES. \<forall>h. hits_at_k self rank_type = Some h
             \<longrightarrow> distinct (map fst h)"
  shows "set rts \<subseteq> set RANK_TYPES \<Longrightarrow> flat_ok self r \<Longrightarrow> flat_loop self rts r = Inr r'
           \<Longrightarrow> flat_ok self r'"
proof (induction rts arbitrary: r)
  case Nil
  then show ?case by simp
next
  case (Cons rt rts)
  from Cons.prems(3) obtain r1 where r1: "flat_rank_type self rt r = Inr r1"
    and l: "flat_loop self rts r1 = Inr r'"
    by (auto split: sum.splits)
  have "rt \<in> set RANK_TYPES" using Cons.prems(1) by simp
  then have "flat_ok self r1"
    using flat_ok_rank_type [OF _ _ Cons.prems(2) r1] assms by blast
  then show ?case using Cons.IH [OF _ _ l] Cons.prems(1) by simp
qed

lemma hits_at_k_alias:
  "get_metric self ''hits@k'' = get_metric self ''avg.hits_at_10''"
  by (simp add: get_metric_def split_dot_def RANK_TYPES_def RANK_BEST_def RANK_WORST_def
      RANK_AVERAGE_def startswith_def hits_lookup_def int_str_def strip_def is_space_def
      parse_digits_def is_digit_def digit_val_def split: option.splits)




lemma not_hits_mean_rank:
  "\<not> is_hits_designator ''mean_rank''" "\<not> is_hits_designator ''mean_reciprocal_rank''"
  by (simp_all add: is_hits_designator_def startswith_def)

section \<open>Properties of the rank computation\<close>



text \<open>
  Claim C2, as stated, fails: an entry \<open>+inf\<close> is not finite and yet counts as a
  better-scored candidate. With the true score 5, the row \<open>[5, +inf]\<close> has best rank 2,
  the row \<open>[5]\<close> has best rank 1.
\<close>

theorem masking_counterexample:
  "best (projr (compute_rank_from_scores [Fin 5] [[Fin 5, PInf]])) = [2]
   \<and> best (projr (compute_rank_from_scores [Fin 5] [[Fin 5]])) = [1]
   \<and> \<not> isfinite PInf"
  by (simp add: compute_rank_from_scores_def broadcast_def count_gt_def count_ge_def
      number_of_options_def of_long_def fl_ge_def Let_def)

text \<open>
  Claim C2, amended. Entries of \<open>all_scores\<close> that are NaN never affect the result:
  removing them from every row leaves all four rank vectors and the count of finite
  entries unchanged. For the true score 5 and the row \<open>[5, 7, NaN, 3]\<close> the best rank is 2,
  the worst rank is 2 and the count of finite entries is 3.
\<close>

theorem masking_NaN:
  "compute_rank_from_scores true_score (map (filter (\<lambda>s. s \<noteq> NaN)) all_scores)
     = compute_rank_from_scores true_score all_scores
   \<and> number_of_options (map (filter (\<lambda>s. s \<noteq> NaN)) all_scores)
     = number_of_options all_scores
   \<and> compute_rank_from_scores [Fin 5] [[Fin 5, Fin 7, NaN, Fin 3]]
     = Inr \<lparr>best = [2], worst = [2], avg = [Fin 2], adj = [Fin 1]\<rparr>
   \<and> number_of_options [[Fin 5, Fin 7, NaN, Fin 3]] = [Fin 3]"
proof -
  have "compute_rank_from_scores [Fin 5] [[Fin 5, Fin 7, NaN, Fin 3]]
          = Inr \<lparr>best = [2], worst = [2], avg = [Fin 2], adj = [Fin 1]\<rparr>"
    by (simp add: compute_rank_from_scores_def broadcast_def count_gt_def count_ge_def
        number_of_options_def of_long_def fl_ge_def Let_def)
  moreover have "number_of_options [[Fin 5, Fin 7, NaN, Fin 3]] = [Fin 3]"
    by (simp add: number_of_options_def of_long_def)
  ultimately show ?thesis
    by (simp only: compute_drop_NaN number_of_options_drop_NaN simp_thms)
qed

theorem masking_NaN_witness:
  "compute_rank_from_scores [Fin 5, Fin 1] [[Fin 5, Fin 7, Fin 3], [Fin 0]]
     = compute_rank_from_scores [Fin 5, Fin 1] [[Fin 5, NaN, Fin 7, Fin 3], [NaN, Fin 0, NaN]]"
  using masking_NaN [of "[Fin 5, Fin 1]" "[[Fin 5, NaN, Fin 7, Fin 3], [NaN, Fin 0, NaN]]"]
  by simp

text \<open>
  Claim C6, as stated, fails: the expected rank is \<open>(n_finite + 1) / 2\<close>, which is 1/2
  and not 0 when no entry is finite. With the true score 5 and the row \<open>[NaN]\<close> the
  adjusted rank is 1.
\<close>

theorem no_finite_counterexample:
  "compute_rank_from_scores [Fin 5] [[NaN]]
     = Inr \<lparr>best = [1], worst = [0], avg = [Fin (1/2)], adj = [Fin 1]\<rparr>"
  by (simp add: compute_rank_from_scores_def broadcast_def count_gt_def count_ge_def
      number_of_options_def of_long_def fl_ge_def Let_def)

text \<open>
  Claim C6, amended. For every example whose row of \<open>all_scores\<close> has no finite entry, the
  computation returns without an error and the adjusted rank of the example is the
  average rank divided by 1/2, that is the sum of the best and the worst rank: a finite
  number, not NaN.
\<close>

theorem no_finite_adjusted_rank:
  assumes "length true_score = length all_scores" and "i < length all_scores"
    and "\<forall>s\<in>set (all_scores ! i). \<not> isfinite s"
  shows "\<exists>br. compute_rank_from_scores true_score all_scores = Inr br
     \<and> i < length (adj br) \<and> i < length (best br) \<and> i < length (worst br)
     \<and> adj br ! i = of_long (best br ! i + worst br ! i) \<and> adj br ! i \<noteq> NaN"
proof -
  obtain br where br: "compute_rank_from_scores true_score all_scores = Inr br"
    and lens: "length (best br) = length all_scores" "length (worst br) = length all_scores"
      "length (adj br) = length all_scores"
    and rows: "\<forall>i<length all_scores.
          best br ! i = row_best (all_scores ! i) (true_score ! i)
        \<and> worst br ! i = count_ge (all_scores ! i) (true_score ! i)
        \<and> adj br ! i = fl_div (row_avg (all_scores ! i) (true_score ! i))
                          (row_expected (all_scores ! i))"
    using compute_same_length [OF assms(1)] by blast
  have "filter isfinite (all_scores ! i) = []"
    using assms(3) by (simp add: filter_empty_conv)
  then have e: "row_expected (all_scores ! i) = Fin (1/2)"
    by (simp add: row_expected_def of_long_def)
  have "adj br ! i = of_long (best br ! i + worst br ! i)"
    using rows assms(2) e by (simp add: row_avg_def of_long_def)
  then show ?thesis using br lens assms(2) by (simp add: of_long_def)
qed

theorem no_finite_adjusted_rank_witness:
  "\<exists>br. compute_rank_from_scores [Fin 5, PInf] [[Fin 5, Fin 4], [NaN, PInf, NInf]] = Inr br
     \<and> adj br ! 1 = of_long (best br ! 1 + worst br ! 1) \<and> adj br ! 1 \<noteq> NaN"
proof -
  have h1: "length [Fin 5, PInf] = length [[Fin 5, Fin 4], [NaN, PInf, NInf]]" by simp
  have h2: "1 < length [[Fin 5, Fin 4], [NaN, PInf, NInf]]" by simp
  have h3: "\<forall>s\<in>set ([[Fin 5, Fin 4], [NaN, PInf, NInf]] ! 1). \<not> isfinite s" by simp
  from no_finite_adjusted_rank [OF h1 h2 h3] show ?thesis by auto
qed

text \<open>
  Claim C9. For every example in which no candidate of the row scores strictly better
  than the true triple and exactly \<open>m\<close> candidates, the true triple among them (so
  \<open>m \<ge> 1\<close>), compare equal to the true score, the best rank is 1, the worst rank is \<open>m\<close>,
  and so \<open>worst - best = m - 1\<close>.
\<close>

theorem tie_handling:
  assumes "length true_score = length all_scores" and "i < length all_scores"
    and "\<forall>s\<in>set (all_scores ! i). \<not> fl_gt s (true_score ! i)"
    and "int (length (filter (\<lambda>s. fl_eq s (true_score ! i)) (all_scores ! i))) = m"
    and "1 \<le> m"
  shows "\<exists>br. compute_rank_from_scores true_score all_scores = Inr br
     \<and> i < length (best br) \<and> i < length (worst br)
     \<and> best br ! i = 1 \<and> worst br ! i = m \<and> worst br ! i - best br ! i = m - 1"
proof -
  obtain br where br: "compute_rank_from_scores true_score all_scores = Inr br"
    and lens: "length (best br) = length all_scores" "length (worst br) = length all_scores"
    and rows: "\<forall>i<length all_scores.
          best br ! i = row_best (all_scores ! i) (true_score ! i)
        \<and> worst br ! i = count_ge (all_scores ! i) (true_score ! i)"
    using compute_same_length [OF assms(1)] by blast
  have "filter (\<lambda>s. fl_gt s (true_score ! i)) (all_scores ! i) = []"
    using assms(3) by (simp add: filter_empty_conv)
  then have g: "count_gt (all_scores ! i) (true_score ! i) = 0"
    by (simp add: count_gt_def)
  have "best br ! i = 1" "worst br ! i = m"
    using rows assms(2,4) g by (simp_all add: row_best_def count_ge_split)
  with br lens assms(2) show ?thesis by simp
qed

theorem tie_handling_witness:
  "\<exists>br. compute_rank_from_scores [Fin 7] [[Fin 7, Fin 2, Fin 7, NaN, Fin 7]] = Inr br
     \<and> best br ! 0 = 1 \<and> worst br ! 0 = 3 \<and> worst br ! 0 - best br ! 0 = 3 - 1"
proof -
  have h1: "length [Fin 7] = length [[Fin 7, Fin 2, Fin 7, NaN, Fin 7]]" by simp
  have h2: "0 < length [[Fin 7, Fin 2, Fin 7, NaN, Fin 7]]" by simp
  have h3: "\<forall>s\<in>set ([[Fin 7, Fin 2, Fin 7, NaN, Fin 7]] ! 0). \<not> fl_gt s ([Fin 7] ! 0)"
    by simp
  have h4: "int (length (filter (\<lambda>s. fl_eq s ([Fin 7] ! 0))
              ([[Fin 7, Fin 2, Fin 7, NaN, Fin 7]] ! 0))) = 3"
    by simp
  have h5: "(1::int) \<le> 3" by simp
  from tie_handling [OF h1 h2 h3 h4 h5] show ?thesis by auto
qed

section \<open>Properties of the evaluator\<close>

text \<open>
  Claim C3, as stated, fails for the hits-at-k entries: after the first \<open>finalize\<close> the
  accumulator has no entry for a rank kind, \<open>self.ranks.get\<close> gives \<open>None\<close>, the array built
  from it holds one NaN, the comparison \<open>ranks <= k\<close> is false there, and the mean of that
  is 0. The second \<open>finalize\<close> of a fresh evaluator reports 0 for \<open>avg.hits_at_10\<close>.
\<close>

theorem finalize_twice_counterexample:
  "get_metric
     (fst (finalize (snd (finalize (projr
        (process_tail_scores (RankBasedEvaluator None True) [] [Fin 3, Fin 1]
           [[Fin 3, Fin 2, Fin 1], [Fin 1, Fin 5, Fin 0]] None))))))
     ''avg.hits_at_10'' = Inr (Fin 0)"
proof -
  define s where "s = projr (process_tail_scores (RankBasedEvaluator None True) []
      [Fin 3, Fin 1] [[Fin 3, Fin 2, Fin 1], [Fin 1, Fin 5, Fin 0]] None)"
  have "ks s = [1, 3, 5, 10]"
    by (simp add: s_def process_tail_scores_def update_ranks_def RankBasedEvaluator_def
        compute_rank_from_scores_def broadcast_def number_of_options_def Let_def)
  then have k: "ks (snd (finalize s)) = [1, 3, 5, 10]"
    by (simp add: finalize_def split: prod.splits)
  have r: "ranks (snd (finalize s)) = Map.empty"
    by (rule finalize_cleared)
  have "get_metric (fst (finalize (snd (finalize s)))) ''avg.hits_at_10'' = Inr (Fin 0)"
    by (simp add: finalize_def [of "snd (finalize s)"] k r finalize_rank_type_def
        RANK_TYPES_def RANK_BEST_def RANK_WORST_def RANK_AVERAGE_def RANK_AVERAGE_ADJUSTED_def
        get_metric_def split_dot_def startswith_def hits_lookup_def int_str_def strip_def
        is_space_def parse_digits_def is_digit_def digit_val_def dict_get_def
        asarray_def np_mean_def np_mean_bool_def fl_le_def fl_ge_def of_long_def Let_def)
  then show ?thesis by (simp only: s_def)
qed

text \<open>
  Claim C3, amended. A second \<open>finalize\<close> with no processing in between returns a result
  (it raises nothing) in which \<open>mean_rank\<close> and \<open>mean_reciprocal_rank\<close> of every rank kind
  and \<open>adjusted_mean_rank\<close> are NaN.
\<close>

theorem finalize_twice:
  "(\<forall>rank_type\<in>set RANK_TYPES.
       mean_rank (fst (finalize (snd (finalize self)))) rank_type = Some NaN
     \<and> mean_reciprocal_rank (fst (finalize (snd (finalize self)))) rank_type = Some NaN)
   \<and> adjusted_mean_rank (fst (finalize (snd (finalize self)))) = NaN"
  by (simp add: finalize_mean_rank finalize_mean_reciprocal_rank finalize_adjusted_mean_rank
      finalize_cleared np_mean_none)

theorem finalize_twice_witness:
  "mean_rank (fst (finalize (snd (finalize (RankBasedEvaluator (Some [1]) True))))) ''avg''
     = Some NaN
   \<and> adjusted_mean_rank (fst (finalize (snd (finalize (RankBasedEvaluator (Some [1]) True)))))
     = NaN"
  using finalize_twice [of "RankBasedEvaluator (Some [1]) True"]
  by (simp add: RANK_TYPES_def RANK_AVERAGE_def)

text \<open>
  Claim C8, as stated, fails: a batch dimension of 1 is broadcast against the other one.
  One true score with two rows of scores is processed without an error and two best
  ranks are stored.
\<close>

theorem shape_mismatch_counterexample:
  "\<not> isl (process_tail_scores (RankBasedEvaluator None True) [] [Fin 5]
            [[Fin 5, Fin 7], [Fin 3, Fin 4]] None)
   \<and> ranks (projr (process_tail_scores (RankBasedEvaluator None True) [] [Fin 5]
            [[Fin 5, Fin 7], [Fin 3, Fin 4]] None)) ''best'' = Some [Fin 2, Fin 1]"
  by (simp add: process_tail_scores_def update_ranks_def RankBasedEvaluator_def
      compute_rank_from_scores_def broadcast_def count_gt_def count_ge_def
      number_of_options_def of_long_def fl_ge_def items_def ranks_extend_def
      RANK_BEST_def RANK_WORST_def RANK_AVERAGE_def RANK_AVERAGE_ADJUSTED_def)

text \<open>
  Claim C8, amended. For every batch whose true-score batch dimension and all-scores
  batch dimension disagree and are both different from 1, \<open>process_tail_scores_\<close> and
  \<open>process_head_scores_\<close> fail with a shape-mismatch error; no evaluator state is returned,
  so no rank value is stored.
\<close>

theorem shape_mismatch:
  assumes "length true_scores \<noteq> length scores"
    and "length true_scores \<noteq> 1" and "length scores \<noteq> 1"
  shows "process_tail_scores self hrt_batch true_scores scores dense_positive_mask
           = Inl ShapeMismatch
       \<and> process_head_scores self hrt_batch true_scores scores dense_positive_mask
           = Inl ShapeMismatch"
  using assms
  by (auto simp add: process_tail_scores_def process_head_scores_def update_ranks_def
      compute_rank_from_scores_def broadcast_def)

theorem shape_mismatch_witness:
  "process_tail_scores (RankBasedEvaluator None True) [] [Fin 5, Fin 2, Fin 3]
       [[Fin 5, Fin 7], [Fin 3, Fin 4]] None = Inl ShapeMismatch
   \<and> process_head_scores (RankBasedEvaluator None True) [] [Fin 5, Fin 2, Fin 3]
       [[Fin 5, Fin 7], [Fin 3, Fin 4]] None = Inl ShapeMismatch"
proof -
  have h1: "length [Fin 5, Fin 2, Fin 3] \<noteq> length [[Fin 5, Fin 7], [Fin 3, Fin 4]]" by simp
  have h2: "length [Fin 5, Fin 2, Fin 3] \<noteq> 1" by simp
  have h3: "length [[Fin 5, Fin 7], [Fin 3, Fin 4]] \<noteq> 1" by simp
  from shape_mismatch [OF h1 h2 h3] show ?thesis by blast
qed

text \<open>
  Claim C10. Two calls of \<open>process_tail_scores_\<close>, or of \<open>process_head_scores_\<close>, on the
  same evaluator with the same true scores and scores give the same outcome (the same
  error, or the same evaluator state and hence the same \<open>finalize\<close> results), whatever
  the triple batches and the dense positive masks are.
\<close>

theorem unused_arguments:
  "process_tail_scores self hrt_batch true_scores scores dense_positive_mask
     = process_tail_scores self hrt_batch' true_scores scores dense_positive_mask'
   \<and> process_head_scores self hrt_batch true_scores scores dense_positive_mask
     = process_head_scores self hrt_batch' true_scores scores dense_positive_mask'
   \<and> map_sum id finalize
       (process_tail_scores self hrt_batch true_scores scores dense_positive_mask)
     = map_sum id finalize
       (process_tail_scores self hrt_batch' true_scores scores dense_positive_mask')
   \<and> map_sum id finalize
       (process_head_scores self hrt_batch true_scores scores dense_positive_mask)
     = map_sum id finalize
       (process_head_scores self hrt_batch' true_scores scores dense_positive_mask')"
proof -
  have t: "process_tail_scores self h true_scores scores m
             = update_ranks self true_scores scores" for h m
    by (simp add: process_tail_scores_def)
  have h: "process_head_scores self h true_scores scores m
             = update_ranks self true_scores scores" for h m
    by (simp add: process_head_scores_def)
  show ?thesis by (simp only: t h simp_thms)
qed

theorem unused_arguments_witness:
  "process_tail_scores (RankBasedEvaluator None True) [(0, 1, 2)] [Fin 5]
       [[Fin 5, Fin 7]] None
     = process_tail_scores (RankBasedEvaluator None True) [(4, 0, 3)] [Fin 5]
       [[Fin 5, Fin 7]] (Some [[True, False]])"
  using unused_arguments [of "RankBasedEvaluator None True" "[(0, 1, 2)]" "[Fin 5]"
      "[[Fin 5, Fin 7]]" None "[(4, 0, 3)]" "Some [[True, False]]"]
  by simp

text \<open>
  Claim C7. For every list of batches of examples, each processed as a head or as a tail
  prediction, processing the batches one after the other and processing all their
  examples as one batch both succeed, and \<open>finalize\<close> then gives the same \<open>mean_rank\<close>
  for every rank kind.
\<close>

theorem batches_round_trip:
  "\<exists>s1 s2. process_batches self batches = Inr s1
     \<and> process_tail_scores self hrt_batch
          (map fst (concat (map (\<lambda>b. snd (snd b)) batches)))
          (map snd (concat (map (\<lambda>b. snd (snd b)) batches))) dense_positive_mask = Inr s2
     \<and> mean_rank (fst (finalize s1)) = mean_rank (fst (finalize s2))"
proof -
  let ?all = "concat (map (\<lambda>b. snd (snd b)) batches)"
  obtain s1 where s1: "process_batches self batches = Inr s1"
    and r1: "\<forall>k\<in>set rank_keys. ranks s1 k =
          (if batches = [] then ranks self k
           else Some (stored (ranks self) k @ map (example_rank k) ?all))"
    using process_batches_ranks by blast
  obtain s2 where s2: "update_ranks self (map fst ?all) (map snd ?all) = Inr s2"
    and r2: "\<forall>k. ranks s2 k = (if k \<in> set rank_keys
                          then Some (stored (ranks self) k @ map (example_rank k) ?all)
                          else ranks self k)"
    using update_ranks_examples by blast
  have "mean_rank (fst (finalize s1)) k = mean_rank (fst (finalize s2)) k" for k
  proof (cases "k \<in> set RANK_TYPES")
    case True
    then have kk: "k \<in> set rank_keys" using RANK_TYPES_rank_keys by blast
    have "np_mean (asarray (ranks s1 k)) = np_mean (asarray (ranks s2 k))"
    proof (cases "batches = []")
      case True
      then show ?thesis using r1 r2 kk by (simp add: np_mean_asarray_stored)
    next
      case False
      then show ?thesis using r1 r2 kk by simp
    qed
    then show ?thesis using True by (simp add: finalize_mean_rank)
  next
    case False
    then show ?thesis by (simp add: finalize_mean_rank_other)
  qed
  then have "mean_rank (fst (finalize s1)) = mean_rank (fst (finalize s2))" by (rule ext)
  then show ?thesis using s1 s2 by (simp add: process_tail_scores_def)
qed

theorem batches_round_trip_witness:
  "\<exists>s1 s2. process_batches (RankBasedEvaluator None True)
         [(False, [], [(Fin 3, [Fin 3, Fin 2, Fin 1])]), (True, [], [(Fin 1, [Fin 1, Fin 5, Fin 0])])]
         = Inr s1
     \<and> process_tail_scores (RankBasedEvaluator None True) []
          [Fin 3, Fin 1] [[Fin 3, Fin 2, Fin 1], [Fin 1, Fin 5, Fin 0]] None = Inr s2
     \<and> mean_rank (fst (finalize s1)) = mean_rank (fst (finalize s2))"
  using batches_round_trip [of "RankBasedEvaluator None True"
      "[(False, [], [(Fin 3, [Fin 3, Fin 2, Fin 1])]), (True, [], [(Fin 1, [Fin 1, Fin 5, Fin 0])])]"
      "[]" None]
  by simp

section \<open>Properties of the metric results\<close>

text \<open>
  Claim C4, as stated, fails: \<open>to_flat_dict\<close> has the key \<open>avg.adjusted_mean_rank\<close>, and
  \<open>get_metric\<close> on that key reads the metric \<open>adjusted_mean_rank\<close> of rank kind \<open>avg\<close>,
  which is none of its metrics, and raises.
\<close>

theorem flat_dict_consistency_counterexample:
  "\<not> isl (to_flat_dict example_results)
   \<and> projr (to_flat_dict example_results) ''avg.adjusted_mean_rank'' = Some (Fin (3/4))
   \<and> get_metric example_results ''avg.adjusted_mean_rank'' = Inl InvalidMetricName"
  by (simp add: to_flat_dict_def flat_rank_type_def example_results_def RANK_TYPES_def
      RANK_BEST_def RANK_WORST_def RANK_AVERAGE_def get_metric_def split_dot_def
      startswith_def)


text \<open>
  Claim C4, amended. For every metric results value whose hits-at-k dictionaries hold
  each k once, and for every key of the mapping returned by \<open>to_flat_dict\<close> other than
  \<open>avg.adjusted_mean_rank\<close>, \<open>get_metric\<close> on that key returns the value stored under
  the key, without an error. Moreover \<open>get_metric\<close> gives the same outcome on \<open>hits@k\<close>
  and on \<open>avg.hits_at_10\<close>.
\<close>

theorem flat_dict_consistency:
  "(to_flat_dict self = Inr d \<and> d key = Some v \<and> key \<noteq> ''avg.adjusted_mean_rank''
      \<and> (\<forall>rank_type\<in>set RANK_TYPES. \<forall>h. hits_at_k self rank_type = Some h
             \<longrightarrow> distinct (map fst h))
    \<longrightarrow> get_metric self key = Inr v)
   \<and> get_metric self ''hits@k'' = get_metric self ''avg.hits_at_10''"
proof -
  have "get_metric self key = Inr v"
    if d: "to_flat_dict self = Inr d" and k: "d key = Some v"
      and n: "key \<noteq> ''avg.adjusted_mean_rank''"
      and w: "\<forall>rank_type\<in>set RANK_TYPES. \<forall>h. hits_at_k self rank_type = Some h
             \<longrightarrow> distinct (map fst h)"
  proof -
    have "flat_ok self [''avg.adjusted_mean_rank'' \<mapsto> adjusted_mean_rank self]"
      by (simp add: flat_ok_def)
    then have "flat_ok self d"
      using flat_ok_loop [OF w, of RANK_TYPES _ d] d by (simp add: to_flat_dict_def)
    then show ?thesis using k n by (auto simp: flat_ok_def)
  qed
  then show ?thesis using hits_at_k_alias by blast
qed

theorem flat_dict_consistency_witness:
  "projr (to_flat_dict example_results) ''avg.hits_at_1'' = Some (Fin (1/2))
   \<and> get_metric example_results ''avg.hits_at_1'' = Inr (Fin (1/2))"
proof -
  have e: "to_flat_dict example_results = Inr (projr (to_flat_dict example_results))"
    by (simp add: to_flat_dict_def flat_rank_type_def example_results_def RANK_TYPES_def
        RANK_BEST_def RANK_WORST_def RANK_AVERAGE_def)
  have k: "projr (to_flat_dict example_results) ''avg.hits_at_1'' = Some (Fin (1/2))"
    by (simp add: to_flat_dict_def flat_rank_type_def example_results_def RANK_TYPES_def
        RANK_BEST_def RANK_WORST_def RANK_AVERAGE_def str_int_def str_nat.simps
        digit_char_def)
  have n: "''avg.hits_at_1'' \<noteq> ''avg.adjusted_mean_rank''" by simp
  have w: "\<forall>rank_type\<in>set RANK_TYPES. \<forall>h. hits_at_k example_results rank_type = Some h
             \<longrightarrow> distinct (map fst h)"
    by (auto simp add: example_results_def RANK_TYPES_def RANK_BEST_def RANK_WORST_def
        RANK_AVERAGE_def)
  from flat_dict_consistency [of example_results "projr (to_flat_dict example_results)"
      "''avg.hits_at_1''" "Fin (1/2)"] e k n w
  show ?thesis by blast
qed





end
